theory Spec2Isabelle
  imports Main
begin

section \<open>Python values\<close>

text \<open>
  A Python \<open>str\<close> is a sequence of Unicode code points; \<open>ord\<close> and \<open>chr\<close> convert
  between a one-character string and its code point. A character is modelled by
  its code point, a text by the list of its code points.
\<close>

type_synonym pystr = "nat list"

definition str :: "string \<Rightarrow> pystr" where
  "str s = map of_char s"

text \<open>
  The program calls built-ins of the Python runtime whose tables are not part of
  the repository. Each one is written out on the part of its domain where its
  value is fixed (Latin-1 for the character classes, all-ASCII strings for
  \<open>lower\<close>, plain short decimal literals for \<open>int\<close>) and is a parameter on
  the rest: the record \<open>pylib\<close> stands for the runtime's Unicode database.
\<close>

record pylib =
  alpha_beyond :: "nat \<Rightarrow> bool"
  upper_beyond :: "nat \<Rightarrow> bool"
  space_beyond :: "nat \<Rightarrow> bool"
  lower_beyond :: "pystr \<Rightarrow> pystr"
  int_beyond :: "pystr \<Rightarrow> int option"

definition ascii_letter :: "nat \<Rightarrow> bool" where
  "ascii_letter c = ((65 \<le> c \<and> c \<le> 90) \<or> (97 \<le> c \<and> c \<le> 122))"

text \<open>\<open>ch.isalpha()\<close>: the letters of Latin-1 are A-Z, a-z, U+00AA, U+00B5, U+00BA,
  U+00C0-U+00D6, U+00D8-U+00F6 and U+00F8-U+00FF.\<close>

definition isalpha :: "pylib \<Rightarrow> nat \<Rightarrow> bool" where
  "isalpha L c =
     (if c < 256
      then ascii_letter c \<or> c = 170 \<or> c = 181 \<or> c = 186
           \<or> (192 \<le> c \<and> c \<le> 214) \<or> (216 \<le> c \<and> c \<le> 246) \<or> 248 \<le> c
      else alpha_beyond L c)"

text \<open>\<open>ch.isupper()\<close> on one character: the uppercase letters of Latin-1 are A-Z,
  U+00C0-U+00D6 and U+00D8-U+00DE.\<close>

definition isupper :: "pylib \<Rightarrow> nat \<Rightarrow> bool" where
  "isupper L c =
     (if c < 256
      then (65 \<le> c \<and> c \<le> 90) \<or> (192 \<le> c \<and> c \<le> 214) \<or> (216 \<le> c \<and> c \<le> 222)
      else upper_beyond L c)"

section \<open>The cipher\<close>

definition ALPHABET_SIZE :: int where
  "ALPHABET_SIZE = 26"

definition normalize_shift :: "int \<Rightarrow> int" where
  "normalize_shift shift = shift mod ALPHABET_SIZE"

text \<open>
  \<open>shift_char\<close>: Python's \<open>%\<close> with a positive modulus is HOL's \<open>mod\<close> on
  \<open>int\<close>. The argument of \<open>chr\<close> lies between 65 and 122 (lemma
  \<open>chr_arg_range\<close>), so \<open>chr\<close> never raises and \<open>nat\<close> loses nothing.
\<close>

definition shift_char :: "pylib \<Rightarrow> nat \<Rightarrow> int \<Rightarrow> nat" where
  "shift_char L ch shift =
     (if isalpha L ch
      then (let base = (if isupper L ch then 65 else 97)
            in nat ((int ch - base + shift) mod ALPHABET_SIZE + base))
      else ch)"

definition encrypt :: "pylib \<Rightarrow> pystr \<Rightarrow> int \<Rightarrow> pystr" where
  "encrypt L text shift =
     (let s = normalize_shift shift in map (\<lambda>c. shift_char L c s) text)"

definition decrypt :: "pylib \<Rightarrow> pystr \<Rightarrow> int \<Rightarrow> pystr" where
  "decrypt L text shift = encrypt L text (- shift)"

text \<open>\<open>range(n)\<close> for an integer \<open>n\<close>: the integers from 0 up to \<open>n - 1\<close>.\<close>

definition py_range :: "int \<Rightarrow> int list" where
  "py_range n = [0..n - 1]"

definition brute_force_candidates :: "pylib \<Rightarrow> pystr \<Rightarrow> (int \<times> pystr) list" where
  "brute_force_candidates L text = map (\<lambda>s. (s, decrypt L text s)) (py_range ALPHABET_SIZE)"

section \<open>Built-ins of the interactive loop\<close>

text \<open>\<open>ch.isspace()\<close>: the whitespace of Latin-1 is U+0009-U+000D, U+001C-U+0020,
  U+0085 and U+00A0.\<close>

definition isspace :: "pylib \<Rightarrow> nat \<Rightarrow> bool" where
  "isspace L c =
     (if c < 256
      then (9 \<le> c \<and> c \<le> 13) \<or> (28 \<le> c \<and> c \<le> 32) \<or> c = 133 \<or> c = 160
      else space_beyond L c)"

text \<open>\<open>s.strip()\<close> removes the leading and the trailing whitespace.\<close>

definition strip :: "pylib \<Rightarrow> pystr \<Rightarrow> pystr" where
  "strip L s = rev (dropWhile (isspace L) (rev (dropWhile (isspace L) s)))"

text \<open>\<open>s.lower()\<close>: on an all-ASCII string, A-Z go to a-z and nothing else changes;
  a string with a character beyond ASCII is lowercased by the Unicode case mapping.\<close>

definition lower :: "pylib \<Rightarrow> pystr \<Rightarrow> pystr" where
  "lower L s =
     (if list_all (\<lambda>c. c < 128) s
      then map (\<lambda>c. if 65 \<le> c \<and> c \<le> 90 then c + 32 else c) s
      else lower_beyond L s)"

text \<open>
  \<open>int(s)\<close> returns an integer or raises \<open>ValueError\<close> (here \<open>None\<close>). Written out:
  an optional sign followed by one to 640 ASCII digits is read in base ten (640
  is the least limit the runtime's digit bound can be set to); the empty string,
  and a string with an ASCII character that is no digit, sign, underscore or
  whitespace, is rejected. Everything else (underscores, inner whitespace,
  digits of other scripts, longer literals) is left to the runtime.
\<close>

definition is_digit :: "nat \<Rightarrow> bool" where
  "is_digit c = (48 \<le> c \<and> c \<le> 57)"

definition decimal :: "pystr \<Rightarrow> int" where
  "decimal ds = foldl (\<lambda>a c. 10 * a + (int c - 48)) 0 ds"

definition unsigned_literal :: "pystr \<Rightarrow> int option" where
  "unsigned_literal ds =
     (if ds \<noteq> [] \<and> list_all is_digit ds \<and> length ds \<le> 640 then Some (decimal ds) else None)"

definition plain_literal :: "pystr \<Rightarrow> int option" where
  "plain_literal s =
     (case s of
        [] \<Rightarrow> None
      | c # ds \<Rightarrow>
          if c = 43 then unsigned_literal ds
          else if c = 45 then map_option uminus (unsigned_literal ds)
          else unsigned_literal s)"

definition never_in_literal :: "nat \<Rightarrow> bool" where
  "never_in_literal c =
     (c < 128 \<and> \<not> is_digit c \<and> c \<noteq> 43 \<and> c \<noteq> 45 \<and> c \<noteq> 95
      \<and> \<not> (9 \<le> c \<and> c \<le> 13) \<and> \<not> (28 \<le> c \<and> c \<le> 32))"

definition int_of :: "pylib \<Rightarrow> pystr \<Rightarrow> int option" where
  "int_of L s =
     (case plain_literal s of
        Some n \<Rightarrow> Some n
      | None \<Rightarrow> if s = [] \<or> list_ex never_in_literal s then None else int_beyond L s)"

text \<open>The decimal text of an integer, as an f-string writes it, and \<open>{s:>2}\<close>.\<close>

fun digits :: "nat \<Rightarrow> pystr" where
  "digits n = (if n < 10 then [48 + n] else digits (n div 10) @ [48 + n mod 10])"

declare digits.simps [simp del]

definition format_int :: "int \<Rightarrow> pystr" where
  "format_int i = (if i < 0 then 45 # digits (nat (- i)) else digits (nat i))"

definition rjust :: "nat \<Rightarrow> pystr \<Rightarrow> pystr" where
  "rjust w s = replicate (w - length s) 32 @ s"

section \<open>Input and output\<close>

text \<open>
  Standard input is the list of the lines still to be read; \<open>input(p)\<close> writes the
  prompt \<open>p\<close> and takes the first line, or raises \<open>EOFError\<close> when none is left.
  Standard output is the list of what was written: \<open>Print s\<close> for \<open>print(s)\<close>
  (the text and a newline), \<open>Prompt p\<close> for the prompt of an \<open>input\<close>.
\<close>

datatype event = Print pystr | Prompt pystr

datatype outcome = Returned | EOFError

definition emit :: "event list \<Rightarrow> event list \<times> outcome \<Rightarrow> event list \<times> outcome" where
  "emit evs r = (evs @ fst r, snd r)"

definition run_cli :: "pylib \<Rightarrow> pystr \<Rightarrow> int \<Rightarrow> pystr \<Rightarrow> event list" where
  "run_cli L mode shift text =
     (if mode = str ''encrypt'' then [Print (encrypt L text shift)]
      else [Print (decrypt L text shift)])"

definition mode_prompt :: pystr where
  "mode_prompt = str ''Mode [E/D/Q]: ''"

definition text_prompt :: pystr where
  "text_prompt = str ''Enter your message: ''"

definition shift_prompt :: pystr where
  "shift_prompt =
     str ''Enter shift (integer). For Decrypt, '?' = try all: ''"

definition shift_error :: pystr where
  "shift_error = str ''Shift must be an integer (e.g., 3, -2, 52). Try again.'' @ [10]"

definition candidate_line :: "int \<times> pystr \<Rightarrow> event" where
  "candidate_line p = Print (rjust 2 (format_int (fst p)) @ str '' : '' @ snd p)"

definition result_line :: "string \<Rightarrow> int \<Rightarrow> pystr \<Rightarrow> event" where
  "result_line label shift result =
     Print ([10] @ str label @ str '' (shift '' @ format_int (normalize_shift shift)
            @ str ''): '' @ result @ [10])"

fun interactive_loop :: "pylib \<Rightarrow> pystr list \<Rightarrow> event list \<times> outcome" where
  "interactive_loop L [] = ([Prompt mode_prompt], EOFError)"
| "interactive_loop L (m # ins) =
     emit [Prompt mode_prompt]
       (let mode = lower L (strip L m) in
        if mode = [] then interactive_loop L ins
        else if mode = str ''q'' then ([Print (str ''Goodbye!'')], Returned)
        else if mode \<noteq> str ''e'' \<and> mode \<noteq> str ''d''
        then emit [Print (str ''Please enter E, D, or Q.'')] (interactive_loop L ins)
        else emit [Prompt text_prompt]
          (case ins of
             [] \<Rightarrow> ([], EOFError)
           | text # ins1 \<Rightarrow>
               emit [Prompt shift_prompt]
                 (case ins1 of
                    [] \<Rightarrow> ([], EOFError)
                  | sh # rest \<Rightarrow>
                      (let shift_str = strip L sh in
                       if mode = str ''d'' \<and> shift_str = str ''?''
                       then emit ([Print ([10] @ str ''Trying all 26 keys... (shift : candidate)'')]
                                  @ map candidate_line (brute_force_candidates L text)
                                  @ [Print []])
                              (interactive_loop L rest)
                       else (case int_of L shift_str of
                               None \<Rightarrow> emit [Print shift_error] (interactive_loop L rest)
                             | Some shift \<Rightarrow>
                                 if mode = str ''e''
                                 then emit [result_line ''Encrypted'' shift (encrypt L text shift)]
                                        (interactive_loop L rest)
                                 else emit [result_line ''Decrypted'' shift (decrypt L text shift)]
                                        (interactive_loop L rest))))))"

declare interactive_loop.simps [simp del]

definition banner :: "event list" where
  "banner =
     [Print (replicate 60 61),
      Print (str ''                CAESAR CIPHER (interactive)''),
      Print (replicate 60 61),
      Print (str ''Tips:''),
      Print (str ''  '' @ [8226]
             @ str '' Enter 'E' to Encrypt, 'D' to Decrypt, or 'Q' to quit.''),
      Print (str ''  '' @ [8226]
             @ str '' For Decrypt, if you don't know the shift, enter '?' to try all keys.''),
      Print []]"

definition interactive :: "pylib \<Rightarrow> pystr list \<Rightarrow> event list \<times> outcome" where
  "interactive L ins = emit banner (interactive_loop L ins)"

section \<open>The command line\<close>

text \<open>
  \<open>args\<close> is the namespace that \<open>parse_args\<close> returns: an option that was not
  given is \<open>None\<close>. \<open>main\<close> tests \<open>args.mode\<close> for truth (neither \<open>None\<close> nor
  the empty string) and the other two against \<open>None\<close>.
\<close>

record args =
  arg_mode :: "pystr option"
  arg_shift :: "int option"
  arg_text :: "pystr option"

text \<open>\<open>build_parser\<close> gives \<open>--mode\<close> the choices "encrypt" and "decrypt": a namespace
  that \<open>parse_args\<close> returns has one of them as its mode, or \<open>None\<close>.\<close>

definition mode_choices :: "pystr list" where
  "mode_choices = [str ''encrypt'', str ''decrypt'']"

definition parser_result :: "args \<Rightarrow> bool" where
  "parser_result a = (case arg_mode a of None \<Rightarrow> True | Some m \<Rightarrow> m \<in> set mode_choices)"

definition main :: "pylib \<Rightarrow> args \<Rightarrow> pystr list \<Rightarrow> event list \<times> outcome" where
  "main L a ins =
     (case arg_mode a of
        None \<Rightarrow> interactive L ins
      | Some m \<Rightarrow>
          (case arg_shift a of
             None \<Rightarrow> interactive L ins
           | Some s \<Rightarrow>
               (case arg_text a of
                  None \<Rightarrow> interactive L ins
                | Some t \<Rightarrow>
                    if m \<noteq> [] then (run_cli L m s t, Returned) else interactive L ins)))"

text \<open>
  The examples below are texts of Latin-1 characters, plain ASCII mode lines and
  plain decimal shifts, for which nothing beyond the written-out part of a
  built-in is consulted; they are evaluated with \<open>no_beyond\<close>, which holds
  nothing there.
\<close>

definition no_beyond :: pylib where
  "no_beyond =
     \<lparr>alpha_beyond = (\<lambda>c. False), upper_beyond = (\<lambda>c. False), space_beyond = (\<lambda>c. False),
      lower_beyond = (\<lambda>s. s), int_beyond = (\<lambda>s. None)\<rparr>"

section \<open>Properties of the cipher\<close>

lemmas cipher_defs =
  encrypt_def decrypt_def shift_char_def isalpha_def isupper_def ascii_letter_def
  normalize_shift_def ALPHABET_SIZE_def str_def

lemma normalize_shift_range: "0 \<le> normalize_shift s \<and> normalize_shift s < 26"
  by (simp add: normalize_shift_def ALPHABET_SIZE_def)

lemma chr_arg_range:
  "65 \<le> (x + shift) mod ALPHABET_SIZE + (if b then 65 else 97)
   \<and> (x + shift) mod ALPHABET_SIZE + (if b then 65 else 97) \<le> 122"
  by (auto simp: ALPHABET_SIZE_def intro: order_trans [OF _ pos_mod_sign] dest: pos_mod_bound)

lemma shift_char_upper:
  "65 \<le> c \<Longrightarrow> c \<le> 90 \<Longrightarrow> shift_char L c s = nat ((int c - 65 + s) mod 26 + 65)"
  by (simp add: shift_char_def isalpha_def isupper_def ascii_letter_def ALPHABET_SIZE_def)

lemma shift_char_lower:
  "97 \<le> c \<Longrightarrow> c \<le> 122 \<Longrightarrow> shift_char L c s = nat ((int c - 97 + s) mod 26 + 97)"
  by (simp add: shift_char_def isalpha_def isupper_def ascii_letter_def ALPHABET_SIZE_def)

lemma shift_char_other: "\<not> isalpha L c \<Longrightarrow> shift_char L c s = c"
  by (simp add: shift_char_def)

lemma unshift:
  fixes x :: int
  assumes "0 \<le> x" "x < 26"
  shows "((x + s mod 26) mod 26 + (- s) mod 26) mod 26 = x"
proof -
  have "((x + s mod 26) mod 26 + (- s) mod 26) mod 26 = x mod 26"
    by (simp add: mod_simps)
  with assms show ?thesis by simp
qed

text \<open>Shifting an ASCII letter by \<open>s\<close> and then by \<open>- s\<close> (both normalised) gives it back.\<close>

lemma shift_back_upper:
  assumes "65 \<le> c" "c \<le> 90"
  shows "shift_char L (shift_char L c (s mod 26)) ((- s) mod 26) = c"
proof -
  let ?d = "(int c - 65 + s mod 26) mod 26"
  have r: "0 \<le> ?d" "?d < 26" by simp_all
  have 1: "shift_char L c (s mod 26) = nat (?d + 65)"
    using assms by (simp add: shift_char_upper)
  have 2: "65 \<le> nat (?d + 65)" "nat (?d + 65) \<le> 90" using r by linarith+
  have "shift_char L (nat (?d + 65)) ((- s) mod 26)
        = nat ((int (nat (?d + 65)) - 65 + (- s) mod 26) mod 26 + 65)"
    using 2 by (rule shift_char_upper)
  also have "int (nat (?d + 65)) - 65 = ?d" using r by simp
  also have "(?d + (- s) mod 26) mod 26 = int c - 65"
    using assms by (intro unshift) simp_all
  finally show ?thesis using 1 by simp
qed

lemma shift_back_lower:
  assumes "97 \<le> c" "c \<le> 122"
  shows "shift_char L (shift_char L c (s mod 26)) ((- s) mod 26) = c"
proof -
  let ?d = "(int c - 97 + s mod 26) mod 26"
  have r: "0 \<le> ?d" "?d < 26" by simp_all
  have 1: "shift_char L c (s mod 26) = nat (?d + 97)"
    using assms by (simp add: shift_char_lower)
  have 2: "97 \<le> nat (?d + 97)" "nat (?d + 97) \<le> 122" using r by linarith+
  have "shift_char L (nat (?d + 97)) ((- s) mod 26)
        = nat ((int (nat (?d + 97)) - 97 + (- s) mod 26) mod 26 + 97)"
    using 2 by (rule shift_char_lower)
  also have "int (nat (?d + 97)) - 97 = ?d" using r by simp
  also have "(?d + (- s) mod 26) mod 26 = int c - 97"
    using assms by (intro unshift) simp_all
  finally show ?thesis using 1 by simp
qed

lemma shift_back:
  assumes "isalpha L c \<longrightarrow> ascii_letter c"
  shows "shift_char L (shift_char L c (s mod 26)) ((- s) mod 26) = c"
proof (cases "isalpha L c")
  case True
  with assms have "ascii_letter c" by simp
  then show ?thesis
    unfolding ascii_letter_def using shift_back_upper shift_back_lower by blast
next
  case False
  then show ?thesis by (simp add: shift_char_other)
qed

text \<open>
  On a text whose letters are all ASCII letters, decrypting an encryption gives
  the text back, and shift 0 changes nothing.
\<close>

lemma encrypt_map: "encrypt L t s = map (\<lambda>c. shift_char L c (s mod 26)) t"
  by (simp add: encrypt_def normalize_shift_def ALPHABET_SIZE_def)

lemma decrypt_encrypt_ascii_letters:
  assumes "\<forall>c \<in> set t. isalpha L c \<longrightarrow> ascii_letter c"
  shows "decrypt L (encrypt L t s) s = t"
  using assms by (simp add: decrypt_def encrypt_map shift_back map_idI)

lemma shift_char_zero:
  assumes "isalpha L c \<longrightarrow> ascii_letter c"
  shows "shift_char L c 0 = c"
proof (cases "isalpha L c")
  case True
  with assms have "ascii_letter c" by simp
  then show ?thesis
    unfolding ascii_letter_def by (auto simp: shift_char_upper shift_char_lower)
next
  case False
  then show ?thesis by (simp add: shift_char_other)
qed

lemma encrypt_zero_ascii_letters:
  assumes "\<forall>c \<in> set t. isalpha L c \<longrightarrow> ascii_letter c"
  shows "encrypt L t 0 = t \<and> decrypt L t 0 = t"
  using assms by (simp add: decrypt_def encrypt_map shift_char_zero map_idI)

text \<open>
  C1 (round trip): \<open>decrypt(encrypt(T, S), S) == T\<close> is claimed for every Unicode
  text. The code tests \<open>ch.isalpha()\<close>, which holds of letters beyond ASCII too,
  and then computes with the base of the ASCII alphabet: the text U+00E9 (e with
  acute accent) encrypts with shift 1 to "h", which decrypts to "g".
\<close>

theorem roundtrip_fails_on_e_acute:
  "encrypt L [233] 1 = str ''h'' \<and> decrypt L (encrypt L [233] 1) 1 = str ''g''
   \<and> decrypt L (encrypt L [233] 1) 1 \<noteq> [233]"
  by (simp add: cipher_defs)

text \<open>
  C2 (only ASCII letters change): the Shift Transform is claimed to return every
  character that is not an ASCII letter unchanged, letters of other alphabets
  included. The code sends U+00E9, a letter that is not ASCII, to "j" under
  shift 3.
\<close>

theorem shift_char_changes_e_acute:
  "\<not> ascii_letter 233 \<and> shift_char L 233 3 = 106 \<and> shift_char L 233 3 \<noteq> 233"
  by (simp add: cipher_defs)

text \<open>
  C3 (identity shift): \<open>encrypt(T, 0) == T\<close> and \<open>decrypt(T, 0) == T\<close> are claimed
  for every text. With shift 0 the code turns the text U+00E9 into "g", both
  ways.
\<close>

theorem shift_zero_changes_e_acute:
  "encrypt L [233] 0 = str ''g'' \<and> decrypt L [233] 0 = str ''g'' \<and> str ''g'' \<noteq> [233]"
  by (simp add: cipher_defs)

text \<open>
  C4 (brute force): for every text, \<open>brute_force_candidates\<close> returns exactly 26
  pairs, their shifts are 0 to 25 in ascending order, and the pair at position
  \<open>k\<close> is \<open>(k, decrypt(T, k))\<close>.
\<close>

theorem brute_force_candidates_table:
  "length (brute_force_candidates L t) = 26
   \<and> map fst (brute_force_candidates L t) = [0..25]
   \<and> (\<forall>k<26. brute_force_candidates L t ! k = (int k, decrypt L t (int k)))"
proof -
  have r: "py_range ALPHABET_SIZE = [0..25]"
    by (simp add: py_range_def ALPHABET_SIZE_def)
  have n: "length [0..25::int] = 26" by simp
  have "\<forall>k<26. brute_force_candidates L t ! k = (int k, decrypt L t (int k))"
  proof (intro allI impI)
    fix k :: nat assume k: "k < 26"
    then have "[0..25::int] ! k = 0 + int k" by (intro nth_upto) simp
    with k n show "brute_force_candidates L t ! k = (int k, decrypt L t (int k))"
      by (simp add: brute_force_candidates_def r)
  qed
  then show ?thesis
    by (simp add: brute_force_candidates_def r comp_def)
qed

theorem brute_force_candidates_table_witness:
  "(3::nat) < 26 \<and> length (brute_force_candidates no_beyond (str ''Khoor'')) = 26
   \<and> brute_force_candidates no_beyond (str ''Khoor'') ! 3 = (3, str ''Hello'')"
proof -
  have d: "decrypt no_beyond (str ''Khoor'') 3 = str ''Hello''"
    by (simp add: cipher_defs)
  show ?thesis
    using brute_force_candidates_table [of no_beyond "str ''Khoor''"] d by auto
qed

text \<open>
  C5 (shift normalisation): for every text and every integer shift, negative or
  beyond 26 included, \<open>encrypt(T, S) == encrypt(T, S mod 26)\<close>, where \<open>S mod 26\<close>
  is the remainder in [0, 26) that \<open>normalize_shift\<close> computes.
\<close>

theorem encrypt_normalized_shift:
  "encrypt L t s = encrypt L t (s mod 26)
   \<and> normalize_shift s = s mod 26 \<and> 0 \<le> s mod 26 \<and> s mod 26 < 26"
  by (simp add: encrypt_def normalize_shift_def ALPHABET_SIZE_def)

text \<open>
  C6 (length and order): \<open>encrypt(T, S)\<close> is as long as \<open>T\<close>, and its character at
  each position is the Shift Transform of the character of \<open>T\<close> at that position.
\<close>

theorem encrypt_length_and_positions:
  "length (encrypt L t s) = length t
   \<and> (\<forall>i<length t. encrypt L t s ! i = shift_char L (t ! i) (normalize_shift s))"
  by (simp add: encrypt_def)

theorem encrypt_length_and_positions_witness:
  "(1::nat) < length (str ''a-z'') \<and> length (encrypt no_beyond (str ''a-z'') 27) = 3
   \<and> encrypt no_beyond (str ''a-z'') 27 ! 1 = 45"
proof -
  have "shift_char no_beyond (str ''a-z'' ! 1) (normalize_shift 27) = 45"
    by (simp add: cipher_defs)
  then show ?thesis
    using encrypt_length_and_positions [of no_beyond "str ''a-z''" 27] by (auto simp: str_def)
qed

text \<open>
  C8 (reference vectors): \<open>encrypt("Hello, World!", 3) == "Khoor, Zruog!"\<close> and
  \<open>encrypt("abcXYZ", 2) == "cdeZAB"\<close>.
\<close>

theorem encrypt_reference_vectors:
  "encrypt L (str ''Hello, World!'') 3 = str ''Khoor, Zruog!''
   \<and> encrypt L (str ''abcXYZ'') 2 = str ''cdeZAB''"
  by (simp add: cipher_defs)

section \<open>Properties of the two interfaces\<close>

lemmas builtin_defs =
  strip_def lower_def isspace_def int_of_def plain_literal_def unsigned_literal_def
  never_in_literal_def is_digit_def decimal_def no_beyond_def

lemma interactive_loop_starts_with_mode_prompt:
  "\<exists>evs r. interactive_loop L ins = (Prompt mode_prompt # evs, r)"
  by (cases ins) (simp_all add: interactive_loop.simps emit_def)

lemma interactive_is_not_run_cli: "interactive L ins \<noteq> (run_cli L m s t, Returned)"
proof
  assume e: "interactive L ins = (run_cli L m s t, Returned)"
  have "length (fst (interactive L ins)) \<ge> 7"
    by (simp add: interactive_def emit_def banner_def)
  moreover have "length (run_cli L m s t) = 1"
    by (simp add: run_cli_def)
  ultimately show False using e by simp
qed

lemma loop_quit:
  assumes "lower L (strip L m) = str ''q''"
  shows "interactive_loop L (m # ins) = ([Prompt mode_prompt, Print (str ''Goodbye!'')], Returned)"
  using assms by (simp add: interactive_loop.simps emit_def str_def)

lemma loop_encrypt:
  assumes "lower L (strip L m) = str ''e''" and "int_of L (strip L sh) = Some k"
  shows "interactive_loop L (m # x # sh # rest) =
           emit [Prompt mode_prompt, Prompt text_prompt, Prompt shift_prompt,
                 result_line ''Encrypted'' k (encrypt L x k)]
             (interactive_loop L rest)"
  using assms by (simp add: interactive_loop.simps emit_def str_def)

lemma int_of_question_mark: "int_of L (str ''?'') = None"
  by (simp add: int_of_def plain_literal_def unsigned_literal_def never_in_literal_def
        is_digit_def str_def)

lemma loop_decrypt:
  assumes "lower L (strip L m) = str ''d''" and "int_of L (strip L sh) = Some k"
  shows "interactive_loop L (m # x # sh # rest) =
           emit [Prompt mode_prompt, Prompt text_prompt, Prompt shift_prompt,
                 result_line ''Decrypted'' k (decrypt L x k)]
             (interactive_loop L rest)"
proof -
  from assms(2) have "strip L sh \<noteq> str ''?''"
    using int_of_question_mark [of L] by auto
  with assms show ?thesis
    by (simp add: interactive_loop.simps emit_def str_def)
qed

lemma loop_brute_force:
  assumes "lower L (strip L m) = str ''d''" and "strip L sh = str ''?''"
  shows "interactive_loop L (m # x # sh # rest) =
           emit ([Prompt mode_prompt, Prompt text_prompt, Prompt shift_prompt,
                  Print ([10] @ str ''Trying all 26 keys... (shift : candidate)'')]
                 @ map candidate_line (brute_force_candidates L x) @ [Print []])
             (interactive_loop L rest)"
  using assms by (simp add: interactive_loop.simps emit_def str_def)

text \<open>
  C7 (shift-parse error): in an iteration of the loop whose mode line selects
  encryption or decryption, when the conversion \<open>int(shift_str)\<close> is reached
  (the line is not the brute-force request \<open>?\<close> of decrypt mode) and raises
  \<open>ValueError\<close>, the iteration prints the error message and nothing else, and the
  loop goes on from the mode prompt with the remaining input: the result does
  not depend on the text that was entered, and no exception leaves the loop.
\<close>

theorem shift_parse_error_recovers:
  assumes "lower L (strip L m) = str ''e'' \<or> lower L (strip L m) = str ''d''"
    and "\<not> (lower L (strip L m) = str ''d'' \<and> strip L sh = str ''?'')"
    and "int_of L (strip L sh) = None"
  shows "interactive_loop L (m # text # sh # rest) =
           emit [Prompt mode_prompt, Prompt text_prompt, Prompt shift_prompt, Print shift_error]
             (interactive_loop L rest)
         \<and> interactive_loop L (m # text # sh # rest) = interactive_loop L (m # text' # sh # rest)
         \<and> (\<exists>evs r. interactive_loop L rest = (Prompt mode_prompt # evs, r))"
proof -
  have step: "interactive_loop L (m # x # sh # rest) =
           emit [Prompt mode_prompt, Prompt text_prompt, Prompt shift_prompt, Print shift_error]
             (interactive_loop L rest)" for x
    using assms by (auto simp: interactive_loop.simps emit_def Let_def str_def)
  show ?thesis
    using step [of "text"] step [of "text'"] interactive_loop_starts_with_mode_prompt [of L rest]
    by simp
qed

theorem shift_parse_error_recovers_witness:
  "(lower no_beyond (strip no_beyond (str ''E'')) = str ''e'')
   \<and> strip no_beyond (str ''3.5'') \<noteq> str ''?''
   \<and> int_of no_beyond (strip no_beyond (str ''3.5'')) = None
   \<and> interactive_loop no_beyond [str ''E'', str ''Hello'', str ''3.5'', str ''q''] =
       ([Prompt mode_prompt, Prompt text_prompt, Prompt shift_prompt, Print shift_error,
         Prompt mode_prompt, Print (str ''Goodbye!'')], Returned)"
proof -
  have m: "lower no_beyond (strip no_beyond (str ''E'')) = str ''e''"
    by (simp add: builtin_defs str_def)
  have s: "strip no_beyond (str ''3.5'') = str ''3.5''"
    by (simp add: builtin_defs str_def)
  have p: "int_of no_beyond (str ''3.5'') = None"
    by (simp add: builtin_defs str_def)
  have q: "interactive_loop no_beyond [str ''q''] = ([Prompt mode_prompt, Print (str ''Goodbye!'')], Returned)"
    by (rule loop_quit) (simp add: builtin_defs str_def)
  have n: "str ''3.5'' \<noteq> str ''?''" by (simp add: str_def)
  show ?thesis
    using shift_parse_error_recovers
            [of no_beyond "str ''E''" "str ''3.5''" "str ''Hello''" "[str ''q'']" "str ''Hello''"]
          m s p q n
    by (simp add: emit_def)
qed

text \<open>
  C9 (batch dispatch): for a namespace returned by the parser, \<open>main\<close> runs the
  one-shot path exactly when \<open>--mode\<close>, \<open>--shift\<close> and \<open>--text\<close> are all given;
  a shift of 0 and an empty text count as given.
\<close>

theorem main_dispatch:
  assumes "parser_result a"
  shows "(arg_mode a \<noteq> None \<and> arg_shift a \<noteq> None \<and> arg_text a \<noteq> None \<longrightarrow>
            (\<exists>m s t. arg_mode a = Some m \<and> arg_shift a = Some s \<and> arg_text a = Some t
                     \<and> main L a ins = (run_cli L m s t, Returned))
            \<and> main L a ins \<noteq> interactive L ins)
         \<and> (\<not> (arg_mode a \<noteq> None \<and> arg_shift a \<noteq> None \<and> arg_text a \<noteq> None) \<longrightarrow>
            main L a ins = interactive L ins
            \<and> (\<forall>m s t. main L a ins \<noteq> (run_cli L m s t, Returned)))
         \<and> main L \<lparr>arg_mode = Some (str ''encrypt''), arg_shift = Some 0, arg_text = Some t\<rparr> ins
             = ([Print (encrypt L t 0)], Returned)
         \<and> main L \<lparr>arg_mode = Some (str ''decrypt''), arg_shift = Some s, arg_text = Some []\<rparr> ins
             = ([Print []], Returned)"
proof -
  have batch: "main L a ins = (run_cli L m s t, Returned)"
    if "arg_mode a = Some m" "arg_shift a = Some s" "arg_text a = Some t" for m s t
  proof -
    from assms that have "m \<noteq> []"
      by (auto simp: parser_result_def mode_choices_def str_def)
    with that show ?thesis by (simp add: main_def)
  qed
  have fallback: "main L a ins = interactive L ins"
    if "\<not> (arg_mode a \<noteq> None \<and> arg_shift a \<noteq> None \<and> arg_text a \<noteq> None)"
    using that by (auto simp: main_def split: option.splits)
  have 1: "arg_mode a \<noteq> None \<and> arg_shift a \<noteq> None \<and> arg_text a \<noteq> None \<longrightarrow>
            (\<exists>m s t. arg_mode a = Some m \<and> arg_shift a = Some s \<and> arg_text a = Some t
                     \<and> main L a ins = (run_cli L m s t, Returned))
            \<and> main L a ins \<noteq> interactive L ins"
    using batch interactive_is_not_run_cli [of L ins] by (metis not_Some_eq)
  have 2: "\<not> (arg_mode a \<noteq> None \<and> arg_shift a \<noteq> None \<and> arg_text a \<noteq> None) \<longrightarrow>
            main L a ins = interactive L ins
            \<and> (\<forall>m s t. main L a ins \<noteq> (run_cli L m s t, Returned))"
    using fallback interactive_is_not_run_cli [of L ins] by metis
  have 3: "main L \<lparr>arg_mode = Some (str ''encrypt''), arg_shift = Some 0, arg_text = Some t\<rparr> ins
             = ([Print (encrypt L t 0)], Returned)"
    by (simp add: main_def run_cli_def str_def)
  have 4: "main L \<lparr>arg_mode = Some (str ''decrypt''), arg_shift = Some s, arg_text = Some []\<rparr> ins
             = ([Print []], Returned)"
    by (simp add: main_def run_cli_def str_def decrypt_def encrypt_def)
  from 1 2 3 4 show ?thesis by blast
qed

theorem main_dispatch_witness:
  "parser_result \<lparr>arg_mode = Some (str ''encrypt''), arg_shift = Some 0, arg_text = Some []\<rparr>
   \<and> main no_beyond \<lparr>arg_mode = Some (str ''encrypt''), arg_shift = Some 0, arg_text = Some []\<rparr> []
       = ([Print []], Returned)
   \<and> parser_result \<lparr>arg_mode = Some (str ''encrypt''), arg_shift = None, arg_text = Some []\<rparr>
   \<and> main no_beyond \<lparr>arg_mode = Some (str ''encrypt''), arg_shift = None, arg_text = Some []\<rparr> []
       = interactive no_beyond []"
proof -
  have p: "parser_result \<lparr>arg_mode = Some (str ''encrypt''), arg_shift = x, arg_text = Some []\<rparr>" for x
    by (simp add: parser_result_def mode_choices_def)
  show ?thesis
    using p [of "Some 0"] p [of None]
      main_dispatch [OF p [of "Some 0"], of no_beyond "[]"]
      main_dispatch [OF p [of None], of no_beyond "[]"]
    by (simp add: run_cli_def encrypt_def)
qed

text \<open>
  C10 (stripping): the loop reads the mode line through \<open>strip\<close> and \<open>lower\<close>
  and, once a mode is chosen, the shift line through \<open>strip\<close>, so two mode lines,
  or two shift lines, that agree after that lead to the same run; " Q " quits
  and " 3 " is the shift 3. The message is passed on as it was entered on each
  of the three paths that use it: it is the argument of \<open>encrypt\<close>, of
  \<open>decrypt\<close> and of \<open>brute_force_candidates\<close> for every message and every shift,
  and the line " a " is encrypted, the line " d " decrypted, with its spaces.
\<close>

theorem interactive_strips_mode_and_shift:
  "(lower L (strip L m) = lower L (strip L m') \<longrightarrow>
      interactive_loop L (m # ins) = interactive_loop L (m' # ins))
   \<and> ((lower L (strip L m) = str ''e'' \<or> lower L (strip L m) = str ''d'')
       \<and> strip L sh = strip L sh' \<longrightarrow>
      interactive_loop L (m # text # sh # rest) = interactive_loop L (m # text # sh' # rest))
   \<and> interactive_loop L (str '' Q '' # ins) = ([Prompt mode_prompt, Print (str ''Goodbye!'')], Returned)
   \<and> interactive_loop L (str ''e'' # text # str '' 3 '' # rest) =
       emit [Prompt mode_prompt, Prompt text_prompt, Prompt shift_prompt,
             result_line ''Encrypted'' 3 (encrypt L text 3)]
         (interactive_loop L rest)
   \<and> interactive_loop L (str ''e'' # str '' a '' # str ''3'' # rest) =
       emit [Prompt mode_prompt, Prompt text_prompt, Prompt shift_prompt,
             Print ([10] @ str ''Encrypted (shift 3):  d '' @ [10])]
         (interactive_loop L rest)
   \<and> (lower L (strip L m) = str ''e'' \<and> int_of L (strip L sh) = Some k \<longrightarrow>
      interactive_loop L (m # text # sh # rest) =
        emit [Prompt mode_prompt, Prompt text_prompt, Prompt shift_prompt,
              result_line ''Encrypted'' k (encrypt L text k)]
          (interactive_loop L rest))
   \<and> (lower L (strip L m) = str ''d'' \<and> int_of L (strip L sh) = Some k \<longrightarrow>
      interactive_loop L (m # text # sh # rest) =
        emit [Prompt mode_prompt, Prompt text_prompt, Prompt shift_prompt,
              result_line ''Decrypted'' k (decrypt L text k)]
          (interactive_loop L rest))
   \<and> (lower L (strip L m) = str ''d'' \<and> strip L sh = str ''?'' \<longrightarrow>
      interactive_loop L (m # text # sh # rest) =
        emit ([Prompt mode_prompt, Prompt text_prompt, Prompt shift_prompt,
               Print ([10] @ str ''Trying all 26 keys... (shift : candidate)'')]
              @ map candidate_line (brute_force_candidates L text) @ [Print []])
          (interactive_loop L rest))
   \<and> interactive_loop L (str ''d'' # str '' d '' # str ''3'' # rest) =
       emit [Prompt mode_prompt, Prompt text_prompt, Prompt shift_prompt,
             Print ([10] @ str ''Decrypted (shift 3):  a '' @ [10])]
         (interactive_loop L rest)
   \<and> take 6 (fst (interactive_loop L (str ''d'' # str '' b '' # str ''?'' # rest))) =
       [Prompt mode_prompt, Prompt text_prompt, Prompt shift_prompt,
        Print ([10] @ str ''Trying all 26 keys... (shift : candidate)''),
        Print (str '' 0 :  b ''), Print (str '' 1 :  a '')]"
proof -
  have 1: "lower L (strip L m) = lower L (strip L m') \<longrightarrow>
      interactive_loop L (m # ins) = interactive_loop L (m' # ins)"
    by (simp add: interactive_loop.simps)
  have 2: "(lower L (strip L m) = str ''e'' \<or> lower L (strip L m) = str ''d'')
       \<and> strip L sh = strip L sh' \<longrightarrow>
      interactive_loop L (m # text # sh # rest) = interactive_loop L (m # text # sh' # rest)"
    by (auto simp: interactive_loop.simps str_def)
  have q: "lower L (strip L (str '' Q '')) = str ''q''"
    by (simp add: strip_def lower_def isspace_def str_def)
  have e: "lower L (strip L (str ''e'')) = str ''e''"
    by (simp add: strip_def lower_def isspace_def str_def)
  have d: "lower L (strip L (str ''d'')) = str ''d''"
    by (simp add: strip_def lower_def isspace_def str_def)
  have i: "int_of L (strip L (str '' 3 '')) = Some 3" "int_of L (strip L (str ''3'')) = Some 3"
    by (simp_all add: strip_def isspace_def int_of_def plain_literal_def unsigned_literal_def
          is_digit_def decimal_def str_def)
  have b: "strip L (str ''?'') = str ''?''"
    by (simp add: strip_def isspace_def str_def)
  have f: "result_line ''Encrypted'' 3 (encrypt L (str '' a '') 3)
           = Print ([10] @ str ''Encrypted (shift 3):  d '' @ [10])"
    by (simp add: result_line_def format_int_def digits.simps cipher_defs)
  have g: "result_line ''Decrypted'' 3 (decrypt L (str '' d '') 3)
           = Print ([10] @ str ''Decrypted (shift 3):  a '' @ [10])"
    by (simp add: result_line_def format_int_def digits.simps cipher_defs)
  have c: "take 2 (map candidate_line (brute_force_candidates L (str '' b '')))
           = [Print (str '' 0 :  b ''), Print (str '' 1 :  a '')]"
    by (simp add: brute_force_candidates_def py_range_def upto_rec1 [of 0 25] upto_rec1 [of 1 25]
          take_map candidate_line_def rjust_def format_int_def digits.simps cipher_defs)
  note 3 = loop_quit [OF q, of ins]
  note 4 = loop_encrypt [OF e i(1), of "text" rest]
  note 5 = loop_encrypt [OF e i(2), of "str '' a ''" rest, unfolded f]
  have 6: "lower L (strip L m) = str ''e'' \<and> int_of L (strip L sh) = Some k \<longrightarrow>
      interactive_loop L (m # text # sh # rest) =
        emit [Prompt mode_prompt, Prompt text_prompt, Prompt shift_prompt,
              result_line ''Encrypted'' k (encrypt L text k)]
          (interactive_loop L rest)"
    using loop_encrypt [of L m sh k "text" rest] by blast
  have 7: "lower L (strip L m) = str ''d'' \<and> int_of L (strip L sh) = Some k \<longrightarrow>
      interactive_loop L (m # text # sh # rest) =
        emit [Prompt mode_prompt, Prompt text_prompt, Prompt shift_prompt,
              result_line ''Decrypted'' k (decrypt L text k)]
          (interactive_loop L rest)"
    using loop_decrypt [of L m sh k "text" rest] by blast
  have 8: "lower L (strip L m) = str ''d'' \<and> strip L sh = str ''?'' \<longrightarrow>
      interactive_loop L (m # text # sh # rest) =
        emit ([Prompt mode_prompt, Prompt text_prompt, Prompt shift_prompt,
               Print ([10] @ str ''Trying all 26 keys... (shift : candidate)'')]
              @ map candidate_line (brute_force_candidates L text) @ [Print []])
          (interactive_loop L rest)"
    using loop_brute_force [of L m sh "text" rest] by blast
  note 9 = loop_decrypt [OF d i(2), of "str '' d ''" rest, unfolded g]
  have n: "length (map candidate_line (brute_force_candidates L (str '' b ''))) = 26"
    by (simp add: brute_force_candidates_def py_range_def ALPHABET_SIZE_def)
  have 10: "take 6 (fst (interactive_loop L (str ''d'' # str '' b '' # str ''?'' # rest))) =
       [Prompt mode_prompt, Prompt text_prompt, Prompt shift_prompt,
        Print ([10] @ str ''Trying all 26 keys... (shift : candidate)''),
        Print (str '' 0 :  b ''), Print (str '' 1 :  a '')]"
    unfolding loop_brute_force [OF d b, of "str '' b ''" rest]
    using c n by (simp add: emit_def)
  from 1 2 3 4 5 6 7 8 9 10 show ?thesis by blast
qed

theorem interactive_strips_mode_and_shift_witness:
  "lower no_beyond (strip no_beyond (str '' E '')) = lower no_beyond (strip no_beyond (str ''e''))
   \<and> lower no_beyond (strip no_beyond (str ''e'')) = str ''e''
   \<and> strip no_beyond (str '' 3 '') = strip no_beyond (str ''3'')
   \<and> interactive_loop no_beyond [str '' E '', str '' a '', str '' 3 '', str '' Q '']
       = interactive_loop no_beyond [str ''e'', str '' a '', str ''3'', str '' Q '']
   \<and> interactive_loop no_beyond [str ''e'', str '' a '', str ''3'', str '' Q ''] =
       ([Prompt mode_prompt, Prompt text_prompt, Prompt shift_prompt,
         Print ([10] @ str ''Encrypted (shift 3):  d '' @ [10]),
         Prompt mode_prompt, Print (str ''Goodbye!'')], Returned)
   \<and> lower no_beyond (strip no_beyond (str '' D '')) = str ''d''
   \<and> int_of no_beyond (strip no_beyond (str '' -23 '')) = Some (- 23)
   \<and> interactive_loop no_beyond [str '' D '', str '' d '', str '' -23 '', str '' Q ''] =
       ([Prompt mode_prompt, Prompt text_prompt, Prompt shift_prompt,
         Print ([10] @ str ''Decrypted (shift 3):  a '' @ [10]),
         Prompt mode_prompt, Print (str ''Goodbye!'')], Returned)
   \<and> strip no_beyond (str '' ? '') = str ''?''
   \<and> interactive_loop no_beyond [str '' D '', [], str '' ? '', str '' Q ''] =
       ([Prompt mode_prompt, Prompt text_prompt, Prompt shift_prompt,
         Print ([10] @ str ''Trying all 26 keys... (shift : candidate)'')]
        @ map candidate_line (brute_force_candidates no_beyond []) @ [Print []]
        @ [Prompt mode_prompt, Print (str ''Goodbye!'')], Returned)"
proof -
  have m: "lower no_beyond (strip no_beyond (str '' E '')) = lower no_beyond (strip no_beyond (str ''e''))"
    by (simp add: builtin_defs str_def)
  have e: "lower no_beyond (strip no_beyond (str ''e'')) = str ''e''"
    by (simp add: builtin_defs str_def)
  have d: "lower no_beyond (strip no_beyond (str '' D '')) = str ''d''"
    by (simp add: builtin_defs str_def)
  have s: "strip no_beyond (str '' 3 '') = strip no_beyond (str ''3'')"
    by (simp add: builtin_defs str_def)
  have k: "int_of no_beyond (strip no_beyond (str '' -23 '')) = Some (- 23)"
    by (simp add: builtin_defs str_def)
  have b: "strip no_beyond (str '' ? '') = str ''?''"
    by (simp add: builtin_defs str_def)
  have g: "result_line ''Decrypted'' (- 23) (decrypt no_beyond (str '' d '') (- 23))
           = Print ([10] @ str ''Decrypted (shift 3):  a '' @ [10])"
    by (simp add: result_line_def format_int_def digits.simps cipher_defs)
  note a = interactive_strips_mode_and_shift
             [of no_beyond "str '' E ''" "str ''e''" "[str '' a '', str '' 3 '', str '' Q '']"
                 "str '' 3 ''" "str ''3''" "str '' a ''" "[str '' Q '']" 3]
  note b1 = interactive_strips_mode_and_shift
             [of no_beyond "str ''e''" "str ''e''" "[]"
                 "str '' 3 ''" "str ''3''" "str '' a ''" "[str '' Q '']" 3]
  note c = interactive_strips_mode_and_shift
             [of no_beyond "str '' D ''" "str '' D ''" "[]"
                 "str '' -23 ''" "str '' -23 ''" "str '' d ''" "[str '' Q '']" "- 23"]
  note c2 = interactive_strips_mode_and_shift
             [of no_beyond "str '' D ''" "str '' D ''" "[]"
                 "str '' ? ''" "str '' ? ''" "[]" "[str '' Q '']" 0]
  have 1: "interactive_loop no_beyond [str '' E '', str '' a '', str '' 3 '', str '' Q '']
           = interactive_loop no_beyond [str ''e'', str '' a '', str '' 3 '', str '' Q '']"
    using a m by blast
  have 2: "interactive_loop no_beyond [str ''e'', str '' a '', str '' 3 '', str '' Q '']
           = interactive_loop no_beyond [str ''e'', str '' a '', str ''3'', str '' Q '']"
    using b1 e s by blast
  have 3: "interactive_loop no_beyond [str ''e'', str '' a '', str ''3'', str '' Q ''] =
       emit [Prompt mode_prompt, Prompt text_prompt, Prompt shift_prompt,
             Print ([10] @ str ''Encrypted (shift 3):  d '' @ [10])]
         (interactive_loop no_beyond [str '' Q ''])"
    using b1 by blast
  have 4: "interactive_loop no_beyond [str '' Q ''] =
             ([Prompt mode_prompt, Print (str ''Goodbye!'')], Returned)"
    using b1 by blast
  have 5: "interactive_loop no_beyond [str '' D '', str '' d '', str '' -23 '', str '' Q ''] =
       emit [Prompt mode_prompt, Prompt text_prompt, Prompt shift_prompt,
             result_line ''Decrypted'' (- 23) (decrypt no_beyond (str '' d '') (- 23))]
         (interactive_loop no_beyond [str '' Q ''])"
    using c d k by blast
  have 6: "interactive_loop no_beyond [str '' D '', [], str '' ? '', str '' Q ''] =
        emit ([Prompt mode_prompt, Prompt text_prompt, Prompt shift_prompt,
               Print ([10] @ str ''Trying all 26 keys... (shift : candidate)'')]
              @ map candidate_line (brute_force_candidates no_beyond []) @ [Print []])
          (interactive_loop no_beyond [str '' Q ''])"
    using c2 d b by blast
  show ?thesis
    unfolding 1 2 3 5 6 g 4 using m e s d k b by (simp add: emit_def)
qed

end
